theory Spec2Isabelle
  imports Main "HOL-Library.Word" "HOL-Library.AList"
begin

section \<open>The URL shortener: a shallow embedding of its request handlers\<close>

text \<open>
  The program is an Express application of seven routes over two JSON files,
  \<^verbatim>\<open>data/api-keys.json\<close> and \<^verbatim>\<open>data/urls.json\<close>. The embedding follows the version of
  the server with API key management (expiration, revocation, quota); the two helpers
  \<^verbatim>\<open>generateShortUrl\<close> and \<^verbatim>\<open>isValidUrl\<close> that its shorten route calls are the ones of
  \<^verbatim>\<open>server.js\<close>.

  What the embedding makes explicit:
  \<^item> every \<^verbatim>\<open>new Date()\<close> is a clock reading handed to the handler as an argument, one
    argument per reading, in milliseconds since the epoch (an ISO string written by
    \<^verbatim>\<open>toISOString\<close> and read back by \<^verbatim>\<open>new Date(string)\<close> is the same number);
  \<^item> every \<^verbatim>\<open>crypto.randomBytes(n)\<close> reads the first \<open>n\<close> bytes of a byte source handed
    to the handler as an argument, one source per call;
  \<^item> a file is what \<^verbatim>\<open>fs.readFile\<close> followed by \<^verbatim>\<open>JSON.parse\<close> makes of it;
  \<^item> a parsed JSON document is an association list from property names to records: the
    own properties of the JavaScript object. A property read \<^verbatim>\<open>obj[name]\<close> also sees what
    the object inherits from \<^verbatim>\<open>Object.prototype\<close>, and the handlers assign fields of
    whatever the read returned, so the handful of fields they can leave on those shared
    built-in objects is part of the server's state. The fields they leave on
    \<^verbatim>\<open>Object.prototype\<close> itself, through the key \<^verbatim>\<open>__proto__\<close>, are inherited by every
    document read afterwards;
  \<^item> the fields of a request are strings or absent (\<open>None\<close>), and the records of a store
    have the fields that the handlers write, with the types they write them with;
  \<^item> a handler runs from its first line to its reply without another request in between,
    and \<^verbatim>\<open>fs.writeFile\<close> succeeds and replaces the whole file.
\<close>

subsection \<open>Random identifiers\<close>

type_synonym byte = "8 word"

text \<open>\<^verbatim>\<open>crypto.randomBytes(n)\<close>: the first \<open>n\<close> bytes of the source.\<close>

definition randomBytes :: "nat \<Rightarrow> (nat \<Rightarrow> byte) \<Rightarrow> byte list" where
  "randomBytes n src = map src [0..<n]"

text \<open>\<^verbatim>\<open>buffer.toString('hex')\<close>: two lowercase digits for each byte, the high one first.\<close>

definition hexDigits :: string where
  "hexDigits = ''0123456789abcdef''"

definition hexDigit :: "nat \<Rightarrow> char" where
  "hexDigit n = hexDigits ! (n mod 16)"

definition byteHex :: "byte \<Rightarrow> string" where
  "byteHex b = [hexDigit (unat b div 16), hexDigit (unat b mod 16)]"

definition toHex :: "byte list \<Rightarrow> string" where
  "toHex bs = concat (map byteHex bs)"

definition generateApiKey :: "(nat \<Rightarrow> byte) \<Rightarrow> string" where
  "generateApiKey src = toHex (randomBytes 16 src)"

definition generateShortUrl :: "(nat \<Rightarrow> byte) \<Rightarrow> string" where
  "generateShortUrl src = toHex (randomBytes 4 src)"

subsection \<open>The flat record store\<close>

text \<open>
  The text of a file is kept as what \<^verbatim>\<open>JSON.parse\<close> makes of it: \<open>Json doc\<close> when it
  returns the document \<open>doc\<close>, \<open>Malformed\<close> when it throws a \<^verbatim>\<open>SyntaxError\<close>. A file is
  what \<^verbatim>\<open>fs.readFile\<close> makes of its path: \<open>ReadError code\<close> when it rejects with an
  error whose \<^verbatim>\<open>code\<close> is \<open>code\<close> (\<^verbatim>\<open>ENOENT\<close> when there is no such file), the text
  otherwise.
\<close>

datatype 'doc file_text = Json 'doc | Malformed

datatype 'doc json_file = ReadError string | Text "'doc file_text"

datatype js_error = SystemError string | SyntaxError

text \<open>\<^verbatim>\<open>error.code\<close>: a system error has one, a syntax error has none.\<close>

definition errorCode :: "js_error \<Rightarrow> string option" where
  "errorCode error = (case error of SystemError code \<Rightarrow> Some code | SyntaxError \<Rightarrow> None)"

definition readFile :: "'doc json_file \<Rightarrow> js_error + 'doc file_text" where
  "readFile f = (case f of ReadError code \<Rightarrow> Inl (SystemError code) | Text data \<Rightarrow> Inr data)"

definition JSON_parse :: "'doc file_text \<Rightarrow> js_error + 'doc" where
  "JSON_parse data = (case data of Malformed \<Rightarrow> Inl SyntaxError | Json doc \<Rightarrow> Inr doc)"

text \<open>
  \<^verbatim>\<open>readJSON\<close>: the \<^verbatim>\<open>try\<close> block reads and parses, the \<^verbatim>\<open>catch\<close> block turns the error
  with code \<^verbatim>\<open>ENOENT\<close> into the empty object and throws every other error again.
\<close>

definition readJSON :: "('k \<times> 'v) list json_file \<Rightarrow> js_error + ('k \<times> 'v) list" where
  "readJSON f =
     (case (case readFile f of Inl error \<Rightarrow> Inl error | Inr data \<Rightarrow> JSON_parse data) of
        Inl error \<Rightarrow> if errorCode error = Some ''ENOENT'' then Inr [] else Inl error
      | Inr doc \<Rightarrow> Inr doc)"

text \<open>
  \<^verbatim>\<open>writeJSON\<close>: the file then holds the text of \<^verbatim>\<open>JSON.stringify\<close>, which parses back to
  the document.
\<close>

definition writeJSON :: "('k \<times> 'v) list \<Rightarrow> ('k \<times> 'v) list json_file" where
  "writeJSON doc = Text (Json doc)"

text \<open>
  The names every object inherits from \<^verbatim>\<open>Object.prototype\<close> when the server starts. Each
  of them reads as a function, \<^verbatim>\<open>__proto__\<close> as the prototype object itself: all of them
  truthy.
\<close>

definition objectPrototypeNames :: "string list" where
  "objectPrototypeNames =
     [''constructor'', ''__defineGetter__'', ''__defineSetter__'', ''hasOwnProperty'',
      ''__lookupGetter__'', ''__lookupSetter__'', ''isPrototypeOf'',
      ''propertyIsEnumerable'', ''toString'', ''valueOf'', ''__proto__'',
      ''toLocaleString'']"

text \<open>The identifiers a file holds: the own property names of its document.\<close>

definition identifiers :: "('k \<times> 'v) list json_file \<Rightarrow> 'k set" where
  "identifiers f = (case f of Text (Json doc) \<Rightarrow> fst ` set doc | _ \<Rightarrow> {})"

subsection \<open>Records and the server's state\<close>

record ApiKeyRecord =
  userId :: string
  createdAt :: int
  expiresAt :: int
  lastUsed :: "int option"
  revoked :: bool
  description :: "string option"
  revokedAt :: "int option"
  updatedAt :: "int option"

text \<open>
  A record of the URL store: its \<^verbatim>\<open>userId\<close> and \<^verbatim>\<open>createdAt\<close> are \<open>ownerId\<close> and
  \<open>shortenedAt\<close> here, the field names of the key record being taken. The owner is what
  the gate left in \<^verbatim>\<open>req.userId\<close>, which can be \<^verbatim>\<open>undefined\<close>.
\<close>

record UrlRecord =
  originalUrl :: string
  ownerId :: "string option"
  shortenedAt :: int

text \<open>
  The fields the handlers can leave on a built-in object (absent until a handler assigns
  them; \<open>revoked\<close> is only ever assigned \<^verbatim>\<open>true\<close>).
\<close>

record Assigned =
  a_lastUsed :: "int option"
  a_revoked :: bool
  a_revokedAt :: "int option"
  a_description :: "string option"
  a_updatedAt :: "int option"

definition pristine :: Assigned where
  "pristine = \<lparr>a_lastUsed = None, a_revoked = False, a_revokedAt = None,
               a_description = None, a_updatedAt = None\<rparr>"

record server =
  apiKeysFile :: "(string \<times> ApiKeyRecord) list json_file"
  urlsFile :: "(string \<times> UrlRecord) list json_file"
  builtins :: "string \<Rightarrow> Assigned"

text \<open>
  \<^verbatim>\<open>keyData.revoked\<close> when \<^verbatim>\<open>keyData\<close> is the built-in object inherited under \<open>name\<close>: its
  own field, or the one it inherits in turn from \<^verbatim>\<open>Object.prototype\<close>, which is the
  object inherited under \<^verbatim>\<open>__proto__\<close>.
\<close>

definition objectPrototype :: "server \<Rightarrow> Assigned" where
  "objectPrototype st = builtins st ''__proto__''"

definition builtinRevoked :: "server \<Rightarrow> string \<Rightarrow> bool" where
  "builtinRevoked st name \<longleftrightarrow>
     a_revoked (builtins st name) \<or> a_revoked (objectPrototype st)"

text \<open>
  The values the handlers assign: the ISO string of a clock reading, \<^verbatim>\<open>true\<close>, and the
  description of a request. Only the empty string is falsy among them.
\<close>

datatype primitive = IsoString int | JsTrue | JsString string

definition truthy :: "primitive \<Rightarrow> bool" where
  "truthy p = (case p of IsoString t \<Rightarrow> True | JsTrue \<Rightarrow> True | JsString s \<Rightarrow> s \<noteq> [])"

text \<open>
  What an object holds under \<open>name\<close> once the handlers have assigned it the fields \<open>a\<close>:
  the five field names of the assignments, each with the value it was last given.
\<close>

definition assignedProperty :: "Assigned \<Rightarrow> string \<Rightarrow> primitive option" where
  "assignedProperty a name =
     (if name = ''lastUsed'' then map_option IsoString (a_lastUsed a)
      else if name = ''revoked'' then (if a_revoked a then Some JsTrue else None)
      else if name = ''revokedAt'' then map_option IsoString (a_revokedAt a)
      else if name = ''description'' then map_option JsString (a_description a)
      else if name = ''updatedAt'' then map_option IsoString (a_updatedAt a)
      else None)"

text \<open>
  The property read \<^verbatim>\<open>doc[name]\<close> on a parsed document, with \<open>proto\<close> the fields assigned
  to \<^verbatim>\<open>Object.prototype\<close> so far: an own property of the document first; then what the
  document inherits, one of the built-in objects or a value that a handler has assigned
  to \<^verbatim>\<open>Object.prototype\<close>; \<^verbatim>\<open>undefined\<close> otherwise.
\<close>

datatype 'v property = Undefined | Own 'v | Inherited | InheritedValue primitive

definition getProperty :: "Assigned \<Rightarrow> (string \<times> 'v) list \<Rightarrow> string \<Rightarrow> 'v property" where
  "getProperty proto doc name =
     (case map_of doc name of
        Some v \<Rightarrow> Own v
      | None \<Rightarrow>
          if name \<in> set objectPrototypeNames then Inherited
          else
            (case assignedProperty proto name of
               Some p \<Rightarrow> InheritedValue p
             | None \<Rightarrow> Undefined))"

datatype reply =
    Error nat string
  | Created string string int
  | Listing "(string \<times> ApiKeyRecord) list"
  | Message string
  | Updated string ApiKeyRecord
  | UpdatedBuiltin string Assigned
  | UpdatedPrimitive string primitive
  | Shortened string string
  | Redirect "string option"

subsection \<open>The API key registry\<close>

definition API_KEY_EXPIRATION_DAYS :: int where
  "API_KEY_EXPIRATION_DAYS = 30"

definition MAX_KEYS_PER_USER :: nat where
  "MAX_KEYS_PER_USER = 5"

definition msPerDay :: int where
  "msPerDay = 86400000"

text \<open>
  The server's time zone: \<open>LocalTime\<close> and \<open>UTC\<close> are the two conversions of the
  language standard between a time value and the local time.
\<close>

record zone =
  LocalTime :: "int \<Rightarrow> int"
  UTC :: "int \<Rightarrow> int"

text \<open>\<^verbatim>\<open>expirationDate < new Date()\<close>, with \<open>now\<close> the clock reading.\<close>

definition isKeyExpired :: "int \<Rightarrow> ApiKeyRecord \<Rightarrow> bool" where
  "isKeyExpired now keyData \<longleftrightarrow> expiresAt keyData < now"

definition countUserKeys :: "server \<Rightarrow> string \<Rightarrow> js_error + nat" where
  "countUserKeys st uid =
     (case readJSON (apiKeysFile st) of
        Inl e \<Rightarrow> Inl e
      | Inr apiKeys \<Rightarrow> Inr (length (filter (\<lambda>key. userId key = uid) (map snd apiKeys))))"

text \<open>
  \<^verbatim>\<open>date.setDate(date.getDate() + 30)\<close> moves the day of the month of the local time; the
  standard computes \<open>UTC (LocalTime now + 30 days)\<close>.
\<close>

definition getExpirationDate :: "zone \<Rightarrow> int \<Rightarrow> int" where
  "getExpirationDate z now = UTC z (LocalTime z now + API_KEY_EXPIRATION_DAYS * msPerDay)"

text \<open>
  The authorization gate of the shorten route. \<open>header\<close> is
  \<^verbatim>\<open>req.headers['x-api-key']\<close>; \<open>now1\<close> is the clock reading of \<^verbatim>\<open>isKeyExpired\<close>, \<open>now2\<close>
  the one stored as \<^verbatim>\<open>lastUsed\<close>. The result is the reply it sends, or the
  \<^verbatim>\<open>req.userId\<close> it hands to the next handler. An inherited built-in object has no
  \<^verbatim>\<open>expiresAt\<close> (the date made of \<^verbatim>\<open>undefined\<close> is before no date) and no \<^verbatim>\<open>userId\<close>.
  Neither has an inherited string or boolean; its \<^verbatim>\<open>revoked\<close> is the one of
  \<^verbatim>\<open>Object.prototype\<close>, and the assignment of \<^verbatim>\<open>lastUsed\<close> to it does nothing (the module
  is not in strict mode, where it would throw).
\<close>

definition validateApiKey ::
  "int \<Rightarrow> int \<Rightarrow> string option \<Rightarrow> server \<Rightarrow> (reply + string option) \<times> server" where
  "validateApiKey now1 now2 header st =
     (case header of
        None \<Rightarrow> (Inl (Error 401 ''API key is required''), st)
      | Some apiKey \<Rightarrow>
          if apiKey = [] then (Inl (Error 401 ''API key is required''), st)
          else
            (case readJSON (apiKeysFile st) of
               Inl e \<Rightarrow> (Inl (Error 500 ''Internal server error''), st)
             | Inr apiKeys \<Rightarrow>
                 (case getProperty (objectPrototype st) apiKeys apiKey of
                    Undefined \<Rightarrow> (Inl (Error 401 ''Invalid API key''), st)
                  | InheritedValue p \<Rightarrow>
                      if \<not> truthy p then (Inl (Error 401 ''Invalid API key''), st)
                      else if a_revoked (objectPrototype st) then
                        (Inl (Error 401 ''API key has been revoked''), st)
                      else (Inr None, st\<lparr>apiKeysFile := writeJSON apiKeys\<rparr>)
                  | Own keyData \<Rightarrow>
                      if revoked keyData then
                        (Inl (Error 401 ''API key has been revoked''), st)
                      else if isKeyExpired now1 keyData then
                        (Inl (Error 401 ''API key has expired''), st)
                      else
                        (Inr (Some (userId keyData)),
                         st\<lparr>apiKeysFile :=
                              writeJSON (AList.update apiKey
                                (keyData\<lparr>lastUsed := Some now2\<rparr>) apiKeys)\<rparr>)
                  | Inherited \<Rightarrow>
                      if builtinRevoked st apiKey then
                        (Inl (Error 401 ''API key has been revoked''), st)
                      else
                        (Inr None,
                         st\<lparr>builtins := (builtins st)
                              (apiKey := (builtins st apiKey)\<lparr>a_lastUsed := Some now2\<rparr>),
                            apiKeysFile := writeJSON apiKeys\<rparr>))))"

text \<open>
  \<^verbatim>\<open>POST /api/keys\<close>. \<open>bodyUserId\<close> and \<open>bodyDescription\<close> are what \<^verbatim>\<open>req.body.userId\<close> and
  \<^verbatim>\<open>req.body.description\<close> evaluate to; \<open>uidSrc\<close> and \<open>keySrc\<close> feed the two calls of
  \<^verbatim>\<open>randomBytes\<close>; \<open>now1\<close> is the clock reading stored as \<^verbatim>\<open>createdAt\<close>, \<open>now2\<close> the later
  one of \<^verbatim>\<open>getExpirationDate\<close>. \<open>orElse\<close> and \<open>orNull\<close> are the two uses of \<^verbatim>\<open>||\<close>: the
  empty string is falsy like the absent field.
\<close>

definition orElse :: "string option \<Rightarrow> string \<Rightarrow> string" where
  "orElse v d = (case v of None \<Rightarrow> d | Some s \<Rightarrow> if s = [] then d else s)"

definition orNull :: "string option \<Rightarrow> string option" where
  "orNull v = (case v of None \<Rightarrow> None | Some s \<Rightarrow> if s = [] then None else Some s)"

definition quotaMessage :: string where
  "quotaMessage = ''Maximum number of API keys (5) reached for this user''"

definition postApiKeys ::
  "zone \<Rightarrow> (nat \<Rightarrow> byte) \<Rightarrow> (nat \<Rightarrow> byte) \<Rightarrow> int \<Rightarrow> int \<Rightarrow>
   string option \<Rightarrow> string option \<Rightarrow> server \<Rightarrow> reply \<times> server" where
  "postApiKeys z uidSrc keySrc now1 now2 bodyUserId bodyDescription st =
     (let uid = orElse bodyUserId (toHex (randomBytes 8 uidSrc)) in
      case countUserKeys st uid of
        Inl e \<Rightarrow> (Error 500 ''Error generating API key'', st)
      | Inr keyCount \<Rightarrow>
          if keyCount \<ge> MAX_KEYS_PER_USER then (Error 400 quotaMessage, st)
          else
            (let apiKey = generateApiKey keySrc in
             case readJSON (apiKeysFile st) of
               Inl e \<Rightarrow> (Error 500 ''Error generating API key'', st)
             | Inr apiKeys \<Rightarrow>
                 (let keyData =
                        \<lparr>userId = uid, createdAt = now1,
                         expiresAt = getExpirationDate z now2, lastUsed = None,
                         revoked = False, description = orNull bodyDescription,
                         revokedAt = None, updatedAt = None\<rparr>
                  in (Created apiKey uid (expiresAt keyData),
                      st\<lparr>apiKeysFile :=
                           writeJSON (AList.update apiKey keyData apiKeys)\<rparr>))))"

text \<open>\<^verbatim>\<open>GET /api/keys/:userId\<close>.\<close>

definition getApiKeys :: "string \<Rightarrow> server \<Rightarrow> reply \<times> server" where
  "getApiKeys uid st =
     (case readJSON (apiKeysFile st) of
        Inl e \<Rightarrow> (Error 500 ''Error retrieving API keys'', st)
      | Inr apiKeys \<Rightarrow> (Listing (filter (\<lambda>(k, keyData). userId keyData = uid) apiKeys), st))"

text \<open>\<^verbatim>\<open>DELETE /api/keys/:apiKey\<close>, with \<open>now\<close> the clock reading stored as \<^verbatim>\<open>revokedAt\<close>.\<close>

definition deleteApiKey :: "int \<Rightarrow> string \<Rightarrow> server \<Rightarrow> reply \<times> server" where
  "deleteApiKey now apiKey st =
     (case readJSON (apiKeysFile st) of
        Inl e \<Rightarrow> (Error 500 ''Error revoking API key'', st)
      | Inr apiKeys \<Rightarrow>
          (case getProperty (objectPrototype st) apiKeys apiKey of
             Undefined \<Rightarrow> (Error 404 ''API key not found'', st)
           | InheritedValue p \<Rightarrow>
               if \<not> truthy p then (Error 404 ''API key not found'', st)
               else
                 (Message ''API key revoked successfully'',
                  st\<lparr>apiKeysFile := writeJSON apiKeys\<rparr>)
           | Own keyData \<Rightarrow>
               (Message ''API key revoked successfully'',
                st\<lparr>apiKeysFile :=
                     writeJSON (AList.update apiKey
                       (keyData\<lparr>revoked := True, revokedAt := Some now\<rparr>) apiKeys)\<rparr>)
           | Inherited \<Rightarrow>
               (Message ''API key revoked successfully'',
                st\<lparr>builtins := (builtins st)
                     (apiKey := (builtins st apiKey)
                        \<lparr>a_revoked := True, a_revokedAt := Some now\<rparr>),
                   apiKeysFile := writeJSON apiKeys\<rparr>)))"

text \<open>
  \<^verbatim>\<open>PATCH /api/keys/:apiKey\<close>, with \<open>bodyDescription\<close> the value of
  \<^verbatim>\<open>req.body.description\<close> and \<open>now\<close> the clock reading stored as \<^verbatim>\<open>updatedAt\<close>. The reply
  spreads what the property read returned: a record, the fields assigned to a built-in
  object, or an inherited string or boolean.
\<close>

definition patchApiKey :: "int \<Rightarrow> string \<Rightarrow> string option \<Rightarrow> server \<Rightarrow> reply \<times> server" where
  "patchApiKey now apiKey bodyDescription st =
     (case readJSON (apiKeysFile st) of
        Inl e \<Rightarrow> (Error 500 ''Error updating API key'', st)
      | Inr apiKeys \<Rightarrow>
          (case getProperty (objectPrototype st) apiKeys apiKey of
             Undefined \<Rightarrow> (Error 404 ''API key not found'', st)
           | InheritedValue p \<Rightarrow>
               if \<not> truthy p then (Error 404 ''API key not found'', st)
               else (UpdatedPrimitive apiKey p, st\<lparr>apiKeysFile := writeJSON apiKeys\<rparr>)
           | Own keyData \<Rightarrow>
               (let keyData' = keyData\<lparr>description := bodyDescription, updatedAt := Some now\<rparr>
                in (Updated apiKey keyData',
                    st\<lparr>apiKeysFile := writeJSON (AList.update apiKey keyData' apiKeys)\<rparr>))
           | Inherited \<Rightarrow>
               (let assigned = (builtins st apiKey)
                      \<lparr>a_description := bodyDescription, a_updatedAt := Some now\<rparr>
                in (UpdatedBuiltin apiKey assigned,
                    st\<lparr>builtins := (builtins st)(apiKey := assigned),
                       apiKeysFile := writeJSON apiKeys\<rparr>))))"

subsection \<open>The URL constructor\<close>

text \<open>
  \<^verbatim>\<open>new URL(string)\<close> runs the basic URL parser of the URL Standard with no base URL and
  throws when the parser returns failure. The functions below follow the states of that
  parser as far as they decide between failure and a URL; a string is a list of bytes
  (UTF-8), and what is kept of the URL is its scheme and the text of its host (\<open>None\<close>
  for a URL with no host). Path, query and fragment never fail and are not kept.

  The host parser is followed for opaque hosts and for ASCII domains. The verdict on an
  IPv6 literal, on a host with percent-escapes, with bytes outside ASCII or with a
  punycode label, and on an IPv4 address is the parameter \<open>other\<close>: the set of those host
  texts that the platform's host parser accepts.
\<close>

definition codeOf :: "char \<Rightarrow> nat" where
  "codeOf c = of_char c"

definition c0ControlOrSpace :: "char \<Rightarrow> bool" where
  "c0ControlOrSpace c \<longleftrightarrow> codeOf c \<le> 32"

definition asciiTabOrNewline :: "char \<Rightarrow> bool" where
  "asciiTabOrNewline c \<longleftrightarrow> codeOf c = 9 \<or> codeOf c = 10 \<or> codeOf c = 13"

definition asciiDigit :: "char \<Rightarrow> bool" where
  "asciiDigit c \<longleftrightarrow> 48 \<le> codeOf c \<and> codeOf c \<le> 57"

definition asciiUpperAlpha :: "char \<Rightarrow> bool" where
  "asciiUpperAlpha c \<longleftrightarrow> 65 \<le> codeOf c \<and> codeOf c \<le> 90"

definition asciiLowerAlpha :: "char \<Rightarrow> bool" where
  "asciiLowerAlpha c \<longleftrightarrow> 97 \<le> codeOf c \<and> codeOf c \<le> 122"

definition asciiAlpha :: "char \<Rightarrow> bool" where
  "asciiAlpha c \<longleftrightarrow> asciiUpperAlpha c \<or> asciiLowerAlpha c"

definition asciiAlphanumeric :: "char \<Rightarrow> bool" where
  "asciiAlphanumeric c \<longleftrightarrow> asciiDigit c \<or> asciiAlpha c"

definition asciiHexDigit :: "char \<Rightarrow> bool" where
  "asciiHexDigit c \<longleftrightarrow>
     asciiDigit c \<or> (65 \<le> codeOf c \<and> codeOf c \<le> 70) \<or> (97 \<le> codeOf c \<and> codeOf c \<le> 102)"

definition asciiLowercase :: "char \<Rightarrow> char" where
  "asciiLowercase c = (if asciiUpperAlpha c then char_of (codeOf c + 32) else c)"

text \<open>Leading and trailing C0 controls and spaces go, then every tab and newline.\<close>

definition preprocess :: "string \<Rightarrow> string" where
  "preprocess input =
     filter (\<lambda>c. \<not> asciiTabOrNewline c)
       (rev (dropWhile c0ControlOrSpace (rev (dropWhile c0ControlOrSpace input))))"

text \<open>
  Scheme start state and scheme state: the scheme, lowercased, and what follows its
  colon. With no base URL the no scheme state is failure.
\<close>

fun schemeState :: "string \<Rightarrow> string \<Rightarrow> (string \<times> string) option" where
  "schemeState buffer [] = None"
| "schemeState buffer (c # remaining) =
     (if asciiAlphanumeric c \<or> c = CHR ''+'' \<or> c = CHR ''-'' \<or> c = CHR ''.''
      then schemeState (buffer @ [asciiLowercase c]) remaining
      else if c = CHR '':'' then Some (buffer, remaining)
      else None)"

definition schemeStartState :: "string \<Rightarrow> (string \<times> string) option" where
  "schemeStartState input =
     (case input of
        [] \<Rightarrow> None
      | c # remaining \<Rightarrow>
          if asciiAlpha c then schemeState [asciiLowercase c] remaining else None)"

definition specialSchemes :: "string list" where
  "specialSchemes = [''ftp'', ''file'', ''http'', ''https'', ''ws'', ''wss'']"

subsubsection \<open>Hosts\<close>

definition forbiddenHostCodePoint :: "char \<Rightarrow> bool" where
  "forbiddenHostCodePoint c \<longleftrightarrow>
     codeOf c = 0 \<or> codeOf c = 9 \<or> codeOf c = 10 \<or> codeOf c = 13 \<or> c = CHR '' '' \<or>
     c = CHR ''#'' \<or> c = CHR ''/'' \<or> c = CHR '':'' \<or> c = CHR ''<'' \<or> c = CHR ''>'' \<or>
     c = CHR ''?'' \<or> c = CHR ''@'' \<or> c = CHR ''['' \<or> codeOf c = 92 \<or> c = CHR '']'' \<or>
     c = CHR ''^'' \<or> c = CHR ''|''"

definition forbiddenDomainCodePoint :: "char \<Rightarrow> bool" where
  "forbiddenDomainCodePoint c \<longleftrightarrow>
     forbiddenHostCodePoint c \<or> codeOf c \<le> 31 \<or> c = CHR ''%'' \<or> codeOf c = 127"

text \<open>Strictly splitting on a delimiter: always at least one item.\<close>

fun strictlySplit :: "char \<Rightarrow> string \<Rightarrow> string list" where
  "strictlySplit d [] = [[]]"
| "strictlySplit d (c # cs) =
     (case strictlySplit d cs of
        [] \<Rightarrow> [[c]]
      | item # items \<Rightarrow> if c = d then [] # item # items else (c # item) # items)"

text \<open>
  The checker ``ends in a number'': the last label, an empty last one after a dot aside,
  is all digits or parses as an IPv4 number, which adds the hexadecimal form.
\<close>

definition ipv4NumberParses :: "string \<Rightarrow> bool" where
  "ipv4NumberParses input \<longleftrightarrow>
     input \<noteq> [] \<and>
     (if 2 \<le> length input \<and> (take 2 input = ''0X'' \<or> take 2 input = ''0x'')
      then list_all asciiHexDigit (drop 2 input)
      else if 2 \<le> length input \<and> hd input = CHR ''0''
      then list_all (\<lambda>c. 48 \<le> codeOf c \<and> codeOf c \<le> 55) (tl input)
      else list_all asciiDigit input)"

definition endsInANumber :: "string \<Rightarrow> bool" where
  "endsInANumber input \<longleftrightarrow>
     (let parts = strictlySplit (CHR ''.'') input in
      if last parts = [] \<and> length parts = 1 then False
      else
        (let lastPart = last (if last parts = [] then butlast parts else parts)
         in (lastPart \<noteq> [] \<and> list_all asciiDigit lastPart) \<or> ipv4NumberParses lastPart))"

definition punycodeLabel :: "string \<Rightarrow> bool" where
  "punycodeLabel label \<longleftrightarrow> map asciiLowercase (take 4 label) = ''xn--''"

text \<open>
  The host parser, as a verdict. For an ASCII domain with no punycode label the
  conversion of the domain to ASCII is its lowercasing.
\<close>

definition hostParser :: "(string \<Rightarrow> bool) \<Rightarrow> bool \<Rightarrow> string \<Rightarrow> bool" where
  "hostParser other isOpaque input \<longleftrightarrow>
     (if input \<noteq> [] \<and> hd input = CHR ''['' then other input
      else if isOpaque then \<not> list_ex forbiddenHostCodePoint input
      else if list_ex (\<lambda>c. 128 \<le> codeOf c \<or> c = CHR ''%'') input
              \<or> list_ex punycodeLabel (strictlySplit (CHR ''.'') input)
      then other input
      else
        (let asciiDomain = map asciiLowercase input in
         if asciiDomain = [] \<or> list_ex forbiddenDomainCodePoint asciiDomain then False
         else if endsInANumber asciiDomain then other input
         else True))"

subsubsection \<open>Authority, host and port states\<close>

definition authorityEnd :: "bool \<Rightarrow> char \<Rightarrow> bool" where
  "authorityEnd special c \<longleftrightarrow>
     c = CHR ''/'' \<or> c = CHR ''?'' \<or> c = CHR ''#'' \<or> (special \<and> codeOf c = 92)"

text \<open>
  Host state: the buffer up to the first colon outside brackets, and the text after that
  colon when there is one.
\<close>

fun hostState :: "bool \<Rightarrow> string \<Rightarrow> string \<Rightarrow> string \<times> string option" where
  "hostState insideBrackets buffer [] = (buffer, None)"
| "hostState insideBrackets buffer (c # remaining) =
     (if c = CHR '':'' \<and> \<not> insideBrackets then (buffer, Some remaining)
      else hostState
             (if c = CHR ''['' then True else if c = CHR '']'' then False else insideBrackets)
             (buffer @ [c]) remaining)"

definition decimalValue :: "string \<Rightarrow> nat" where
  "decimalValue digits = foldl (\<lambda>n c. 10 * n + (codeOf c - 48)) 0 digits"

definition portState :: "string \<Rightarrow> bool" where
  "portState buffer \<longleftrightarrow>
     list_all asciiDigit buffer \<and> (buffer = [] \<or> decimalValue buffer \<le> 65535)"

text \<open>
  Authority state, from the first character of the authority: the authority runs to the
  next \<^verbatim>\<open>/\<close>, \<^verbatim>\<open>?\<close> or \<^verbatim>\<open>#\<close> (or backslash, for a special scheme); the host and port are
  what follows its last \<^verbatim>\<open>@\<close>. The result is the text of the host, or \<open>None\<close> for failure.
\<close>

definition authorityState :: "(string \<Rightarrow> bool) \<Rightarrow> bool \<Rightarrow> string \<Rightarrow> string option" where
  "authorityState other special remaining =
     (let authority = takeWhile (\<lambda>c. \<not> authorityEnd special c) remaining;
          hostAndPort = rev (takeWhile (\<lambda>c. c \<noteq> CHR ''@'') (rev authority))
      in if CHR ''@'' \<in> set authority \<and> hostAndPort = [] then None
         else
           (case hostState False [] hostAndPort of
              (buffer, Some port) \<Rightarrow>
                if buffer = [] then None
                else if \<not> hostParser other (\<not> special) buffer then None
                else if portState port then Some buffer
                else None
            | (buffer, None) \<Rightarrow>
                if special \<and> buffer = [] then None
                else if hostParser other (\<not> special) buffer then Some buffer
                else None))"

subsubsection \<open>File URLs\<close>

definition slash :: "char \<Rightarrow> bool" where
  "slash c \<longleftrightarrow> c = CHR ''/'' \<or> codeOf c = 92"

definition windowsDriveLetter :: "string \<Rightarrow> bool" where
  "windowsDriveLetter buffer \<longleftrightarrow>
     length buffer = 2 \<and> asciiAlpha (hd buffer) \<and>
     (buffer ! 1 = CHR '':'' \<or> buffer ! 1 = CHR ''|'')"

definition fileHostState :: "(string \<Rightarrow> bool) \<Rightarrow> string \<Rightarrow> string option" where
  "fileHostState other remaining =
     (let buffer = takeWhile (\<lambda>c. \<not> (slash c \<or> c = CHR ''?'' \<or> c = CHR ''#'')) remaining
      in if windowsDriveLetter buffer then Some []
         else if buffer = [] then Some []
         else if hostParser other False buffer then Some buffer
         else None)"

text \<open>File state and file slash state: a host only after two slashes.\<close>

definition fileState :: "(string \<Rightarrow> bool) \<Rightarrow> string \<Rightarrow> string option" where
  "fileState other remaining =
     (case remaining of
        c1 # c2 # rest \<Rightarrow> if slash c1 \<and> slash c2 then fileHostState other rest else Some []
      | _ \<Rightarrow> Some [])"

subsubsection \<open>The parser and the validation of the shorten route\<close>

definition basicUrlParser :: "(string \<Rightarrow> bool) \<Rightarrow> string \<Rightarrow> (string \<times> string option) option" where
  "basicUrlParser other input =
     (case schemeStartState (preprocess input) of
        None \<Rightarrow> None
      | Some (scheme, remaining) \<Rightarrow>
          if scheme = ''file'' then
            map_option (\<lambda>h. (scheme, Some h)) (fileState other remaining)
          else if scheme \<in> set specialSchemes then
            map_option (\<lambda>h. (scheme, Some h))
              (authorityState other True (dropWhile slash remaining))
          else if take 2 remaining = ''//'' then
            map_option (\<lambda>h. (scheme, Some h)) (authorityState other False (drop 2 remaining))
          else Some (scheme, None))"

definition isValidUrl :: "(string \<Rightarrow> bool) \<Rightarrow> string \<Rightarrow> bool" where
  "isValidUrl other string \<longleftrightarrow> basicUrlParser other string \<noteq> None"

subsection \<open>The URL registry\<close>

text \<open>
  \<^verbatim>\<open>GET /:shortUrl\<close>. The reply is \<^verbatim>\<open>res.redirect(urls[shortUrl].originalUrl)\<close>, a 302; an
  inherited built-in object, string or boolean has no \<^verbatim>\<open>originalUrl\<close>, and the redirect
  is to \<^verbatim>\<open>undefined\<close>.
\<close>

definition getShortUrl :: "string \<Rightarrow> server \<Rightarrow> reply \<times> server" where
  "getShortUrl shortUrl st =
     (case readJSON (urlsFile st) of
        Inl e \<Rightarrow> (Error 500 ''Error redirecting to URL'', st)
      | Inr urls \<Rightarrow>
          (case getProperty (objectPrototype st) urls shortUrl of
             Undefined \<Rightarrow> (Error 404 ''Short URL not found'', st)
           | InheritedValue p \<Rightarrow>
               if \<not> truthy p then (Error 404 ''Short URL not found'', st)
               else (Redirect None, st)
           | Own urlData \<Rightarrow> (Redirect (Some (originalUrl urlData)), st)
           | Inherited \<Rightarrow> (Redirect None, st)))"

text \<open>
  The handler of \<^verbatim>\<open>POST /api/shorten\<close>, after the gate: \<open>reqUserId\<close> is the \<^verbatim>\<open>req.userId\<close>
  the gate left, \<open>bodyUrl\<close> is what \<^verbatim>\<open>req.body.url\<close> evaluates to, \<open>protocol\<close> and \<open>host\<close> are
  \<^verbatim>\<open>req.protocol\<close> and \<^verbatim>\<open>req.get('host')\<close>, \<open>src\<close> feeds \<^verbatim>\<open>generateShortUrl\<close> and \<open>now\<close> is
  the clock reading stored as \<^verbatim>\<open>createdAt\<close>. The test of the URL is outside the \<^verbatim>\<open>try\<close>
  block, the store is read and written inside it.
\<close>

definition postApiShorten ::
  "(string \<Rightarrow> bool) \<Rightarrow> (nat \<Rightarrow> byte) \<Rightarrow> int \<Rightarrow> string \<Rightarrow> string \<Rightarrow>
   string option \<Rightarrow> string option \<Rightarrow> server \<Rightarrow> reply \<times> server" where
  "postApiShorten other src now protocol host reqUserId bodyUrl st =
     (case bodyUrl of
        None \<Rightarrow> (Error 400 ''Invalid URL provided'', st)
      | Some url \<Rightarrow>
          if url = [] \<or> \<not> isValidUrl other url then (Error 400 ''Invalid URL provided'', st)
          else
            (case readJSON (urlsFile st) of
               Inl e \<Rightarrow> (Error 500 ''Error shortening URL'', st)
             | Inr urls \<Rightarrow>
                 (let shortUrl = generateShortUrl src in
                  (Shortened (protocol @ ''://'' @ host @ ''/'' @ shortUrl) url,
                   st\<lparr>urlsFile :=
                        writeJSON (AList.update shortUrl
                          \<lparr>originalUrl = url, ownerId = reqUserId, shortenedAt = now\<rparr>
                          urls)\<rparr>))))"

text \<open>The whole route: the gate, then the handler on the state the gate left.\<close>

definition shortenRoute ::
  "(string \<Rightarrow> bool) \<Rightarrow> int \<Rightarrow> int \<Rightarrow> (nat \<Rightarrow> byte) \<Rightarrow> int \<Rightarrow> string \<Rightarrow> string \<Rightarrow>
   string option \<Rightarrow> string option \<Rightarrow> server \<Rightarrow> reply \<times> server" where
  "shortenRoute other now1 now2 src now3 protocol host header bodyUrl st =
     (case validateApiKey now1 now2 header st of
        (Inl r, st') \<Rightarrow> (r, st')
      | (Inr reqUserId, st') \<Rightarrow>
          postApiShorten other src now3 protocol host reqUserId bodyUrl st')"

subsection \<open>The operations of the service\<close>

text \<open>
  One constructor for each operation, with the clock readings, byte sources and request
  fields its handler takes. \<open>Shorten\<close> is the handler behind the gate; the shorten route
  is \<open>Validate\<close> followed by \<open>Shorten\<close>.
\<close>

datatype operation =
    Create zone "nat \<Rightarrow> byte" "nat \<Rightarrow> byte" int int "string option" "string option"
  | List string
  | Revoke int string
  | UpdateDescription int string "string option"
  | Validate int int "string option"
  | Shorten "nat \<Rightarrow> byte" int string string "string option" "string option"
  | Resolve string

fun perform :: "(string \<Rightarrow> bool) \<Rightarrow> operation \<Rightarrow> server \<Rightarrow> server" where
  "perform other (Create z uidSrc keySrc now1 now2 bodyUserId bodyDescription) st =
     snd (postApiKeys z uidSrc keySrc now1 now2 bodyUserId bodyDescription st)"
| "perform other (List uid) st = snd (getApiKeys uid st)"
| "perform other (Revoke now apiKey) st = snd (deleteApiKey now apiKey st)"
| "perform other (UpdateDescription now apiKey bodyDescription) st =
     snd (patchApiKey now apiKey bodyDescription st)"
| "perform other (Validate now1 now2 header) st = snd (validateApiKey now1 now2 header st)"
| "perform other (Shorten src now protocol host reqUserId bodyUrl) st =
     snd (postApiShorten other src now protocol host reqUserId bodyUrl st)"
| "perform other (Resolve shortUrl) st = snd (getShortUrl shortUrl st)"

subsection \<open>Sample requests and states\<close>

definition utcZone :: zone where
  "utcZone = \<lparr>LocalTime = (\<lambda>t. t), UTC = (\<lambda>t. t)\<rparr>"

definition constantSource :: "byte \<Rightarrow> nat \<Rightarrow> byte" where
  "constantSource b = (\<lambda>i. b)"

definition noOtherHost :: "string \<Rightarrow> bool" where
  "noOtherHost = (\<lambda>input. False)"

definition aliceKey :: ApiKeyRecord where
  "aliceKey =
     \<lparr>userId = ''alice'', createdAt = 1000, expiresAt = 2592001000, lastUsed = None,
      revoked = False, description = None, revokedAt = None, updatedAt = None\<rparr>"

definition freshServer :: server where
  "freshServer =
     \<lparr>apiKeysFile = ReadError ''ENOENT'', urlsFile = ReadError ''ENOENT'',
      builtins = (\<lambda>name. pristine)\<rparr>"

definition aliceServer :: server where
  "aliceServer = freshServer\<lparr>apiKeysFile := Text (Json [(''00ff'', aliceKey)])\<rparr>"

definition bobCreate :: "byte \<Rightarrow> operation" where
  "bobCreate b = Create utcZone (constantSource 0) (constantSource b) 10 20 (Some ''bob'') None"

text \<open>Five keys created for one user, the first of them revoked on the way.\<close>

definition bobRequests :: "operation list" where
  "bobRequests =
     [bobCreate 1, bobCreate 2, Revoke 30 (generateApiKey (constantSource 1)),
      bobCreate 3, bobCreate 4, bobCreate 5]"

definition bobServer :: server where
  "bobServer = foldl (\<lambda>st op. perform noOtherHost op st) freshServer bobRequests"

definition bobKey :: ApiKeyRecord where
  "bobKey =
     \<lparr>userId = ''bob'', createdAt = 10, expiresAt = 2592000020, lastUsed = None,
      revoked = False, description = None, revokedAt = None, updatedAt = None\<rparr>"

definition bobKeys :: "(string \<times> ApiKeyRecord) list" where
  "bobKeys =
     [(''01010101010101010101010101010101'', bobKey\<lparr>revoked := True, revokedAt := Some 30\<rparr>),
      (''02020202020202020202020202020202'', bobKey),
      (''03030303030303030303030303030303'', bobKey),
      (''04040404040404040404040404040404'', bobKey),
      (''05050505050505050505050505050505'', bobKey)]"

definition exampleUrl :: string where
  "exampleUrl = ''https://example.com/x''"

definition carolKey :: ApiKeyRecord where
  "carolKey =
     \<lparr>userId = ''carol'', createdAt = 1000, expiresAt = 3000, lastUsed = Some 1500,
      revoked = True, description = None, revokedAt = Some 2000, updatedAt = None\<rparr>"

definition twoKeys :: "(string \<times> ApiKeyRecord) list" where
  "twoKeys = [(''00ff'', aliceKey), (''00aa'', carolKey)]"

definition twoKeyServer :: server where
  "twoKeyServer = freshServer\<lparr>apiKeysFile := Text (Json twoKeys)\<rparr>"

text \<open>A zone one hour ahead of UTC from the end of the first day on.\<close>

definition dstZone :: zone where
  "dstZone =
     \<lparr>LocalTime = (\<lambda>t. if t < 86400000 then t else t + 3600000),
      UTC = (\<lambda>t. if t < 90000000 then t else t - 3600000)\<rparr>"

subsection \<open>The specification's reading of a valid URL\<close>


section \<open>Properties\<close>

subsection \<open>Reading a store\<close>

text \<open>
  C8. The store's read operation returns the empty mapping when the file does not exist,
  the parsed document when the file holds valid JSON, and fails with the parser's syntax
  error when the file exists and its text is not valid JSON.
\<close>

theorem readJSON_outcomes:
  "readJSON (ReadError ''ENOENT'') = Inr [] \<and>
   readJSON (Text (Json doc)) = Inr doc \<and>
   readJSON (Text Malformed) = Inl SyntaxError"
  by (simp add: readJSON_def readFile_def JSON_parse_def errorCode_def)

subsection \<open>Identifiers are never removed\<close>

lemma readJSON_eval:
  "readJSON (ReadError code) = (if code = ''ENOENT'' then Inr [] else Inl (SystemError code))"
  "readJSON (Text Malformed) = Inl SyntaxError"
  "readJSON (Text (Json doc)) = Inr doc"
  by (simp_all add: readJSON_def readFile_def JSON_parse_def errorCode_def)

lemma identifiers_readJSON:
  "readJSON f = Inr doc \<Longrightarrow> identifiers f \<subseteq> fst ` set doc"
  by (auto simp: readJSON_eval identifiers_def split: json_file.splits file_text.splits if_splits)

lemma identifiers_writeJSON [simp]: "identifiers (writeJSON doc) = fst ` set doc"
  by (simp add: identifiers_def writeJSON_def)

lemma readJSON_writeJSON [simp]: "readJSON (writeJSON doc) = Inr doc"
  by (simp add: readJSON_eval writeJSON_def)

lemma identifiers_update:
  assumes "readJSON f = Inr doc"
  shows "identifiers f \<subseteq> identifiers (writeJSON (AList.update k v doc))"
proof -
  have "fst ` set doc \<subseteq> fst ` set (AList.update k v doc)"
    by (auto simp: AList.dom_update)
  with identifiers_readJSON [OF assms] show ?thesis by simp
qed

lemma identifiers_rewrite:
  "readJSON f = Inr doc \<Longrightarrow> identifiers f \<subseteq> identifiers (writeJSON doc)"
  using identifiers_readJSON by fastforce

lemma perform_keeps_identifiers:
  "identifiers (apiKeysFile st) \<subseteq> identifiers (apiKeysFile (perform other op st)) \<and>
   identifiers (urlsFile st) \<subseteq> identifiers (urlsFile (perform other op st))"
  by (cases op)
    (auto simp: postApiKeys_def countUserKeys_def getApiKeys_def deleteApiKey_def
      patchApiKey_def validateApiKey_def postApiShorten_def getShortUrl_def Let_def
      split: sum.splits property.splits option.splits if_splits
      dest: identifiers_update [THEN subsetD] identifiers_rewrite [THEN subsetD])

lemma revoke_flags_record:
  assumes "readJSON (apiKeysFile st) = Inr apiKeys" and "map_of apiKeys k = Some keyData"
  shows "readJSON (apiKeysFile (perform other (Revoke now k) st)) =
         Inr (AList.update k (keyData\<lparr>revoked := True, revokedAt := Some now\<rparr>) apiKeys)"
  using assms by (simp add: deleteApiKey_def getProperty_def)

text \<open>
  C9. Whatever the operation (Create, List, Revoke, UpdateDescription, Validate, Shorten,
  Resolve) and whatever the two stores, every identifier a store holds before the
  operation it still holds after it. Revocation deletes nothing: the store after it is
  the store before it with the record of the key flagged \<open>revoked\<close> and stamped.
\<close>

theorem records_never_deleted:
  "identifiers (apiKeysFile st) \<subseteq> identifiers (apiKeysFile (perform other op st)) \<and>
   identifiers (urlsFile st) \<subseteq> identifiers (urlsFile (perform other op st)) \<and>
   (readJSON (apiKeysFile st) = Inr apiKeys \<and> map_of apiKeys k = Some keyData \<longrightarrow>
      readJSON (apiKeysFile (perform other (Revoke now k) st)) =
      Inr (AList.update k (keyData\<lparr>revoked := True, revokedAt := Some now\<rparr>) apiKeys))"
  using perform_keeps_identifiers revoke_flags_record by blast

theorem records_never_deleted_witness:
  "readJSON (apiKeysFile aliceServer) = Inr [(''00ff'', aliceKey)] \<and>
   map_of [(''00ff'', aliceKey)] ''00ff'' = Some aliceKey \<and>
   identifiers (apiKeysFile aliceServer) \<subseteq>
     identifiers (apiKeysFile (perform noOtherHost (Revoke 5000 ''00ff'') aliceServer)) \<and>
   readJSON (apiKeysFile (perform noOtherHost (Revoke 5000 ''00ff'') aliceServer)) =
     Inr [(''00ff'', aliceKey\<lparr>revoked := True, revokedAt := Some 5000\<rparr>)]"
proof -
  have stored: "readJSON (apiKeysFile aliceServer) = Inr [(''00ff'', aliceKey)]"
    by (simp add: aliceServer_def freshServer_def readJSON_eval)
  have found: "map_of [(''00ff'', aliceKey)] ''00ff'' = Some aliceKey"
    by simp
  from records_never_deleted
    [of aliceServer noOtherHost "Revoke 5000 ''00ff''" "[(''00ff'', aliceKey)]" "''00ff''"
      aliceKey 5000]
    stored found
  show ?thesis by simp
qed

subsection \<open>Property reads\<close>

lemma getProperty_own: "map_of doc name = Some v \<Longrightarrow> getProperty proto doc name = Own v"
  by (simp add: getProperty_def)

lemma getProperty_absent:
  "map_of doc name = None \<Longrightarrow> name \<notin> set objectPrototypeNames \<Longrightarrow>
   assignedProperty proto name = None \<Longrightarrow> getProperty proto doc name = Undefined"
  by (simp add: getProperty_def)

lemma getProperty_inherited:
  "map_of doc name = None \<Longrightarrow> name \<in> set objectPrototypeNames \<Longrightarrow>
   getProperty proto doc name = Inherited"
  by (simp add: getProperty_def)

lemma getProperty_assigned:
  "map_of doc name = None \<Longrightarrow> name \<notin> set objectPrototypeNames \<Longrightarrow>
   assignedProperty proto name = Some p \<Longrightarrow> getProperty proto doc name = InheritedValue p"
  by (simp add: getProperty_def)

lemma assignedProperty_pristine [simp]: "assignedProperty pristine name = None"
  by (simp add: assignedProperty_def pristine_def)

subsection \<open>Updating a description\<close>

lemma update_present_keys:
  assumes "map_of doc k = Some v"
  shows "map fst (AList.update k v' doc) = map fst doc"
proof -
  from assms have "k \<in> fst ` set doc"
    by (metis domI dom_map_of_conv_image_fst)
  then show ?thesis by (simp add: AList.update_keys)
qed

text \<open>
  C10. For a stored key \<open>k\<close>, UpdateDescription changes the description and \<open>updatedAt\<close> of
  the record at \<open>k\<close> and nothing else: the other six fields of that record, the record at
  every other key (and the keys themselves, in their order), the URL store and the
  built-in objects are what they were.
\<close>

theorem patchApiKey_frame:
  assumes "readJSON (apiKeysFile st) = Inr apiKeys" and "map_of apiKeys k = Some keyData"
  shows "\<exists>apiKeys' keyData'.
           patchApiKey now k d st =
             (Updated k keyData', st\<lparr>apiKeysFile := writeJSON apiKeys'\<rparr>) \<and>
           urlsFile (snd (patchApiKey now k d st)) = urlsFile st \<and>
           builtins (snd (patchApiKey now k d st)) = builtins st \<and>
           map fst apiKeys' = map fst apiKeys \<and>
           map_of apiKeys' k = Some keyData' \<and>
           (\<forall>k'. k' \<noteq> k \<longrightarrow> map_of apiKeys' k' = map_of apiKeys k') \<and>
           description keyData' = d \<and> updatedAt keyData' = Some now \<and>
           userId keyData' = userId keyData \<and> createdAt keyData' = createdAt keyData \<and>
           expiresAt keyData' = expiresAt keyData \<and> lastUsed keyData' = lastUsed keyData \<and>
           revoked keyData' = revoked keyData \<and> revokedAt keyData' = revokedAt keyData"
proof -
  let ?r = "keyData\<lparr>description := d, updatedAt := Some now\<rparr>"
  let ?doc = "AList.update k ?r apiKeys"
  have run: "patchApiKey now k d st = (Updated k ?r, st\<lparr>apiKeysFile := writeJSON ?doc\<rparr>)"
    using assms by (simp add: patchApiKey_def getProperty_own Let_def)
  have keys: "map fst ?doc = map fst apiKeys"
    using assms(2) by (rule update_present_keys)
  have here: "map_of ?doc k = Some ?r"
    by (simp add: AList.update_conv')
  have elsewhere: "\<forall>k'. k' \<noteq> k \<longrightarrow> map_of ?doc k' = map_of apiKeys k'"
    by (simp add: AList.update_conv')
  show ?thesis
    using keys here elsewhere
    by (intro exI [of _ ?doc] exI [of _ ?r]) (simp add: run)
qed

theorem patchApiKey_frame_witness:
  "readJSON (apiKeysFile aliceServer) = Inr [(''00ff'', aliceKey)] \<and>
   map_of [(''00ff'', aliceKey)] ''00ff'' = Some aliceKey \<and>
   (\<exists>apiKeys' keyData'.
      patchApiKey 7000 ''00ff'' (Some ''laptop'') aliceServer =
        (Updated ''00ff'' keyData', aliceServer\<lparr>apiKeysFile := writeJSON apiKeys'\<rparr>) \<and>
      map_of apiKeys' ''00ff'' = Some keyData' \<and>
      description keyData' = Some ''laptop'' \<and> updatedAt keyData' = Some 7000 \<and>
      userId keyData' = ''alice'' \<and> expiresAt keyData' = 2592001000 \<and>
      revoked keyData' = False)"
proof -
  have stored: "readJSON (apiKeysFile aliceServer) = Inr [(''00ff'', aliceKey)]"
    by (simp add: aliceServer_def freshServer_def readJSON_eval)
  have found: "map_of [(''00ff'', aliceKey)] ''00ff'' = Some aliceKey"
    by simp
  from patchApiKey_frame [OF stored found, of 7000 "Some ''laptop''"]
  obtain apiKeys' keyData' where
    "patchApiKey 7000 ''00ff'' (Some ''laptop'') aliceServer =
       (Updated ''00ff'' keyData', aliceServer\<lparr>apiKeysFile := writeJSON apiKeys'\<rparr>)"
    "map_of apiKeys' ''00ff'' = Some keyData'"
    "description keyData' = Some ''laptop''" "updatedAt keyData' = Some 7000"
    "userId keyData' = userId aliceKey" "expiresAt keyData' = expiresAt aliceKey"
    "revoked keyData' = revoked aliceKey"
    by blast
  then show ?thesis
    using stored found by (auto simp: aliceKey_def)
qed

subsection \<open>The quota\<close>

text \<open>
  C2. When the store holds at least five records whose \<open>userId\<close> is the user of the
  request (the supplied one, or the generated one), revoked records counted like the
  others, Create answers 400 with the quota message and leaves the state as it was. The
  instance that follows is a sixth attempt: after five keys created for one user, one of
  them revoked since, the next Create of that user is refused.
\<close>

theorem postApiKeys_quota:
  assumes "readJSON (apiKeysFile st) = Inr apiKeys"
      and "5 \<le> length (filter (\<lambda>keyData. userId keyData =
                  orElse bodyUserId (toHex (randomBytes 8 uidSrc))) (map snd apiKeys))"
  shows "postApiKeys z uidSrc keySrc now1 now2 bodyUserId bodyDescription st =
         (Error 400 ''Maximum number of API keys (5) reached for this user'', st)"
  using assms
  by (simp add: postApiKeys_def countUserKeys_def MAX_KEYS_PER_USER_def quotaMessage_def
      Let_def)

lemma bobServer_keys: "readJSON (apiKeysFile bobServer) = Inr bobKeys"
  by code_simp

lemma bobKeys_count:
  "length (filter (\<lambda>keyData. userId keyData = orElse (Some ''bob'')
     (toHex (randomBytes 8 (constantSource 0)))) (map snd bobKeys)) = 5"
  by (simp add: bobKeys_def bobKey_def orElse_def)

theorem postApiKeys_quota_witness:
  "readJSON (apiKeysFile bobServer) = Inr bobKeys \<and>
   length (filter (\<lambda>keyData. userId keyData = ''bob'') (map snd bobKeys)) = 5 \<and>
   length (filter (\<lambda>keyData. userId keyData = ''bob'' \<and> \<not> revoked keyData)
     (map snd bobKeys)) = 4 \<and>
   postApiKeys utcZone (constantSource 0) (constantSource 6) 40 50 (Some ''bob'') None
     bobServer =
   (Error 400 ''Maximum number of API keys (5) reached for this user'', bobServer)"
proof -
  have enough: "5 \<le> length (filter (\<lambda>keyData. userId keyData = orElse (Some ''bob'')
     (toHex (randomBytes 8 (constantSource 0)))) (map snd bobKeys))"
    by (simp only: bobKeys_count)
  from postApiKeys_quota [OF bobServer_keys enough]
  show ?thesis
    by (simp add: bobServer_keys) (simp add: bobKeys_def bobKey_def)
qed

subsection \<open>Hexadecimal identifiers\<close>

lemma length_toHex: "length (toHex bs) = 2 * length bs"
  by (induction bs) (simp_all add: toHex_def byteHex_def)

lemma hexDigit_in: "hexDigit n \<in> set hexDigits"
proof -
  have "n mod 16 < length hexDigits"
    by (simp add: hexDigits_def)
  then show ?thesis
    unfolding hexDigit_def by (rule nth_mem)
qed

lemma set_toHex: "set (toHex bs) \<subseteq> set hexDigits"
  by (induction bs) (simp_all add: toHex_def byteHex_def hexDigit_in)

lemma hexDigit_inj: "i < 16 \<Longrightarrow> j < 16 \<Longrightarrow> hexDigit i = hexDigit j \<Longrightarrow> i = j"
  by (simp add: hexDigit_def nth_eq_iff_index_eq hexDigits_def)

lemma byteHex_inj:
  assumes "byteHex a = byteHex b"
  shows "a = b"
proof -
  have la: "unat a div 16 < 16" and lb: "unat b div 16 < 16"
    using unsigned_less [of a, where 'a = nat] unsigned_less [of b, where 'a = nat]
    by simp_all
  from assms have "hexDigit (unat a div 16) = hexDigit (unat b div 16)"
    and "hexDigit (unat a mod 16) = hexDigit (unat b mod 16)"
    by (simp_all add: byteHex_def)
  then have "unat a div 16 = unat b div 16" and "unat a mod 16 = unat b mod 16"
    using la lb by (auto dest: hexDigit_inj [rotated 2])
  then have "unat a = unat b"
    by (metis div_mult_mod_eq)
  then show ?thesis
    by (simp add: word_unat_eq_iff)
qed

lemma toHex_inj: "length as = length bs \<Longrightarrow> toHex as = toHex bs \<Longrightarrow> as = bs"
proof (induction as bs rule: list_induct2)
  case Nil
  then show ?case by simp
next
  case (Cons a as b bs)
  from Cons.prems have "byteHex a @ toHex as = byteHex b @ toHex bs"
    by (simp add: toHex_def)
  moreover have "length (byteHex a) = length (byteHex b)"
    by (simp add: byteHex_def)
  ultimately have "byteHex a = byteHex b" and "toHex as = toHex bs"
    by simp_all
  with Cons.IH show ?case
    by (simp add: byteHex_inj)
qed

subsection \<open>Creating a key\<close>

text \<open>
  C3, as the code has it. A Create that passes the quota, on a readable store, replies
  with the key, the user and the expiration, where the key is the hexadecimal form of 16
  random bytes, 32 characters among \<^verbatim>\<open>0123456789abcdef\<close>; the user is the supplied one, or
  the hexadecimal form of 8 random bytes when none, or an empty one, is supplied; the
  record stored under
  the key is not revoked, has no \<open>lastUsed\<close>, has the first clock reading as \<open>createdAt\<close>
  and the expiration of the reply as \<open>expiresAt\<close>. The expiration is the second clock
  reading, the one \<^verbatim>\<open>getExpirationDate\<close> takes, moved 30 days ahead in local time: that
  reading plus 30 times 86 400 000 ms in a zone whose offset from UTC is fixed.
\<close>

theorem postApiKeys_created:
  assumes "readJSON (apiKeysFile st) = Inr apiKeys"
      and "uid = orElse bodyUserId (toHex (randomBytes 8 uidSrc))"
      and "length (filter (\<lambda>keyData. userId keyData = uid) (map snd apiKeys)) < 5"
      and "apiKey = toHex (randomBytes 16 keySrc)"
      and "expires = UTC z (LocalTime z now2 + 30 * 86400000)"
  shows "fst (postApiKeys z uidSrc keySrc now1 now2 bodyUserId bodyDescription st) =
           Created apiKey uid expires \<and>
         (\<exists>apiKeys'.
            readJSON (apiKeysFile
              (snd (postApiKeys z uidSrc keySrc now1 now2 bodyUserId bodyDescription st))) =
              Inr apiKeys' \<and>
            map_of apiKeys' apiKey =
              Some \<lparr>userId = uid, createdAt = now1, expiresAt = expires, lastUsed = None,
                    revoked = False, description = orNull bodyDescription,
                    revokedAt = None, updatedAt = None\<rparr>) \<and>
         length apiKey = 32 \<and> set apiKey \<subseteq> set ''0123456789abcdef'' \<and>
         (\<forall>u. bodyUserId = Some u \<and> u \<noteq> [] \<longrightarrow> uid = u) \<and>
         (bodyUserId = None \<or> bodyUserId = Some [] \<longrightarrow>
            uid = toHex (randomBytes 8 uidSrc) \<and> length uid = 16 \<and>
            set uid \<subseteq> set ''0123456789abcdef'') \<and>
         ((\<forall>t. LocalTime z t = t + offset \<and> UTC z t = t - offset) \<longrightarrow>
            expires = now2 + 30 * 86400000)"
proof -
  let ?run = "postApiKeys z uidSrc keySrc now1 now2 bodyUserId bodyDescription st"
  let ?r = "\<lparr>userId = uid, createdAt = now1, expiresAt = expires, lastUsed = None,
             revoked = False, description = orNull bodyDescription, revokedAt = None,
             updatedAt = None\<rparr>"
  let ?doc = "AList.update apiKey ?r apiKeys"
  have run: "?run = (Created apiKey uid expires, st\<lparr>apiKeysFile := writeJSON ?doc\<rparr>)"
    using assms
    by (simp add: postApiKeys_def countUserKeys_def MAX_KEYS_PER_USER_def Let_def
        generateApiKey_def getExpirationDate_def API_KEY_EXPIRATION_DAYS_def msPerDay_def)
  have reply: "fst ?run = Created apiKey uid expires"
    by (simp add: run)
  have stored: "map_of ?doc apiKey = Some ?r"
    by (simp add: AList.update_conv')
  then have after: "\<exists>apiKeys'. readJSON (apiKeysFile (snd ?run)) = Inr apiKeys' \<and>
      map_of apiKeys' apiKey = Some ?r"
    by (intro exI [of _ ?doc]) (simp add: run)
  have len: "length apiKey = 32"
    using assms(4) by (simp add: length_toHex randomBytes_def)
  have hex: "set apiKey \<subseteq> set ''0123456789abcdef''"
    using set_toHex [of "randomBytes 16 keySrc"] assms(4) by (simp only: hexDigits_def)
  have given: "\<forall>u. bodyUserId = Some u \<and> u \<noteq> [] \<longrightarrow> uid = u"
    using assms(2) by (simp add: orElse_def)
  have generated: "bodyUserId = None \<or> bodyUserId = Some [] \<longrightarrow>
      uid = toHex (randomBytes 8 uidSrc) \<and> length uid = 16 \<and>
      set uid \<subseteq> set ''0123456789abcdef''"
  proof
    assume "bodyUserId = None \<or> bodyUserId = Some []"
    with assms(2) have "uid = toHex (randomBytes 8 uidSrc)"
      by (auto simp: orElse_def)
    moreover have "length (toHex (randomBytes 8 uidSrc)) = 16"
      by (simp add: length_toHex randomBytes_def)
    moreover have "set (toHex (randomBytes 8 uidSrc)) \<subseteq> set ''0123456789abcdef''"
      using set_toHex [of "randomBytes 8 uidSrc"] by (simp only: hexDigits_def)
    ultimately show "uid = toHex (randomBytes 8 uidSrc) \<and> length uid = 16 \<and>
        set uid \<subseteq> set ''0123456789abcdef''"
      by (simp only:)
  qed
  have fixed: "(\<forall>t. LocalTime z t = t + offset \<and> UTC z t = t - offset) \<longrightarrow>
      expires = now2 + 30 * 86400000"
    using assms(5) by simp
  from reply after len hex given generated fixed show ?thesis
    by (intro conjI)
qed

lemma generateApiKey_01:
  "toHex (randomBytes 16 (constantSource 1)) = ''01010101010101010101010101010101''"
  by code_simp

lemma generated_user_cd: "toHex (randomBytes 8 (constantSource 205)) = ''cdcdcdcdcdcdcdcd''"
  by code_simp

theorem postApiKeys_created_witness:
  "readJSON (apiKeysFile freshServer) = Inr [] \<and>
   length (filter (\<lambda>keyData. userId keyData = ''cdcdcdcdcdcdcdcd'') (map snd [])) < 5 \<and>
   fst (postApiKeys utcZone (constantSource 205) (constantSource 1) 1000 1000 None
          (Some ''laptop'') freshServer) =
     Created ''01010101010101010101010101010101'' ''cdcdcdcdcdcdcdcd'' 2592001000 \<and>
   (\<exists>apiKeys'.
      readJSON (apiKeysFile
        (snd (postApiKeys utcZone (constantSource 205) (constantSource 1) 1000 1000 None
                (Some ''laptop'') freshServer))) = Inr apiKeys' \<and>
      map_of apiKeys' ''01010101010101010101010101010101'' =
        Some \<lparr>userId = ''cdcdcdcdcdcdcdcd'', createdAt = 1000, expiresAt = 2592001000,
              lastUsed = None, revoked = False, description = Some ''laptop'',
              revokedAt = None, updatedAt = None\<rparr>)"
proof -
  have readable: "readJSON (apiKeysFile freshServer) = Inr []"
    by (simp add: freshServer_def readJSON_eval)
  have user: "''cdcdcdcdcdcdcdcd'' = orElse None (toHex (randomBytes 8 (constantSource 205)))"
    by (simp add: orElse_def generated_user_cd)
  have room: "length (filter (\<lambda>keyData. userId keyData = ''cdcdcdcdcdcdcdcd'')
      (map snd ([] :: (string \<times> ApiKeyRecord) list))) < 5"
    by simp
  have key: "''01010101010101010101010101010101'' = toHex (randomBytes 16 (constantSource 1))"
    by (simp add: generateApiKey_01)
  have expires: "(2592001000 :: int) = UTC utcZone (LocalTime utcZone 1000 + 30 * 86400000)"
    by (simp add: utcZone_def)
  from postApiKeys_created [OF readable user room key expires, of 1000 "Some ''laptop''" 0]
  show ?thesis
    using readable by (simp add: orNull_def generated_user_cd)
qed

text \<open>
  The claim has the expiration exactly 30 days after the creation time. The two are two
  readings of the clock: with the second reading one millisecond after the first, in
  UTC, the key expires 30 days and one millisecond after its \<open>createdAt\<close>. And the 30
  days are days of the local calendar: with one reading, in a zone that moves its clock
  one hour ahead in between, the key expires 30 days less one hour after its
  \<open>createdAt\<close>.
\<close>

theorem postApiKeys_created_counterexample:
  "readJSON (apiKeysFile
     (snd (postApiKeys utcZone (constantSource 0) (constantSource 1) 1000 1001
             (Some ''alice'') None freshServer))) =
     Inr [(''01010101010101010101010101010101'',
           \<lparr>userId = ''alice'', createdAt = 1000, expiresAt = 2592001001, lastUsed = None,
            revoked = False, description = None, revokedAt = None, updatedAt = None\<rparr>)] \<and>
   (2592001001 :: int) \<noteq> 1000 + 30 * 86400000 \<and>
   readJSON (apiKeysFile
     (snd (postApiKeys dstZone (constantSource 0) (constantSource 1) 1000 1000
             (Some ''alice'') None freshServer))) =
     Inr [(''01010101010101010101010101010101'',
           \<lparr>userId = ''alice'', createdAt = 1000, expiresAt = 2588401000, lastUsed = None,
            revoked = False, description = None, revokedAt = None, updatedAt = None\<rparr>)] \<and>
   (2588401000 :: int) \<noteq> 1000 + 30 * 86400000"
  by code_simp

subsection \<open>The authorization gate\<close>

text \<open>
  C1, as the code has it. A request with no API key, or an empty one, is answered 401
  before the store is read. With a readable store and a key that is not just a name the
  store inherits from \<^verbatim>\<open>Object.prototype\<close> (neither one of its built-in names nor the
  name of a field that a handler has assigned to it through the key \<^verbatim>\<open>__proto__\<close>), the
  gate answers 401 \<^emph>\<open>invalid\<close> when the store
  does not hold the key, else 401 \<^emph>\<open>revoked\<close> when the record is revoked, else 401
  \<^emph>\<open>expired\<close> when \<open>expiresAt\<close> is before the clock reading, in that order; a key is still
  accepted at the very millisecond of its \<open>expiresAt\<close>. Otherwise the gate stores the
  next clock reading as \<open>lastUsed\<close> of the record, writes the store, and hands the
  record's \<open>userId\<close> to the handler.
\<close>

theorem validateApiKey_gate:
  assumes "readJSON (apiKeysFile st) = Inr apiKeys"
      and "apiKey \<in> fst ` set apiKeys \<or>
           apiKey \<notin> set objectPrototypeNames \<and>
           assignedProperty (objectPrototype st) apiKey = None"
  shows "validateApiKey now1 now2 None st' = (Inl (Error 401 ''API key is required''), st') \<and>
     validateApiKey now1 now2 (Some apiKey) st =
       (if apiKey = [] then (Inl (Error 401 ''API key is required''), st)
        else case map_of apiKeys apiKey of
          None \<Rightarrow> (Inl (Error 401 ''Invalid API key''), st)
        | Some keyData \<Rightarrow>
            if revoked keyData then (Inl (Error 401 ''API key has been revoked''), st)
            else if expiresAt keyData < now1 then
              (Inl (Error 401 ''API key has expired''), st)
            else
              (Inr (Some (userId keyData)),
               st\<lparr>apiKeysFile :=
                    writeJSON (AList.update apiKey (keyData\<lparr>lastUsed := Some now2\<rparr>)
                      apiKeys)\<rparr>))"
proof (cases "map_of apiKeys apiKey")
  case None
  then have "apiKey \<notin> fst ` set apiKeys"
    by (simp add: map_of_eq_None_iff)
  with assms(2) None have "getProperty (objectPrototype st) apiKeys apiKey = Undefined"
    by (simp add: getProperty_absent)
  with None assms(1) show ?thesis
    by (simp add: validateApiKey_def)
next
  case (Some keyData)
  then have "getProperty (objectPrototype st) apiKeys apiKey = Own keyData"
    by (rule getProperty_own)
  with Some assms(1) show ?thesis
    by (simp add: validateApiKey_def isKeyExpired_def)
qed

lemma twoKeyServer_keys: "readJSON (apiKeysFile twoKeyServer) = Inr twoKeys"
  by (simp add: twoKeyServer_def freshServer_def readJSON_eval)

theorem validateApiKey_gate_witness:
  "readJSON (apiKeysFile twoKeyServer) = Inr twoKeys \<and>
   ''00ff'' \<in> fst ` set twoKeys \<and> ''00aa'' \<in> fst ` set twoKeys \<and>
   ''beef'' \<notin> set objectPrototypeNames \<and>
   assignedProperty (objectPrototype twoKeyServer) ''beef'' = None \<and>
   validateApiKey 5000 5001 None twoKeyServer =
     (Inl (Error 401 ''API key is required''), twoKeyServer) \<and>
   validateApiKey 5000 5001 (Some ''beef'') twoKeyServer =
     (Inl (Error 401 ''Invalid API key''), twoKeyServer) \<and>
   validateApiKey 5000 5001 (Some ''00aa'') twoKeyServer =
     (Inl (Error 401 ''API key has been revoked''), twoKeyServer) \<and>
   validateApiKey 2592001001 2592001002 (Some ''00ff'') twoKeyServer =
     (Inl (Error 401 ''API key has expired''), twoKeyServer) \<and>
   validateApiKey 5000 5001 (Some ''00ff'') twoKeyServer =
     (Inr (Some ''alice''),
      twoKeyServer\<lparr>apiKeysFile :=
        writeJSON [(''00ff'', aliceKey\<lparr>lastUsed := Some 5001\<rparr>), (''00aa'', carolKey)]\<rparr>)"
proof -
  have untouched: "objectPrototype twoKeyServer = pristine"
    by (simp add: objectPrototype_def twoKeyServer_def freshServer_def)
  have alice: "''00ff'' \<in> fst ` set twoKeys \<or>
      ''00ff'' \<notin> set objectPrototypeNames \<and>
      assignedProperty (objectPrototype twoKeyServer) ''00ff'' = None"
    and carol: "''00aa'' \<in> fst ` set twoKeys \<or>
      ''00aa'' \<notin> set objectPrototypeNames \<and>
      assignedProperty (objectPrototype twoKeyServer) ''00aa'' = None"
    and nobody: "''beef'' \<in> fst ` set twoKeys \<or>
      ''beef'' \<notin> set objectPrototypeNames \<and>
      assignedProperty (objectPrototype twoKeyServer) ''beef'' = None"
    by (simp_all add: twoKeys_def objectPrototypeNames_def untouched)
  note gate = validateApiKey_gate [OF twoKeyServer_keys]
  from gate [OF alice, of 5000 5001 twoKeyServer]
    gate [OF alice, of 2592001001 2592001002 twoKeyServer]
    gate [OF carol, of 5000 5001 twoKeyServer]
    gate [OF nobody, of 5000 5001 twoKeyServer]
  show ?thesis
    using twoKeyServer_keys
    by (simp add: twoKeys_def aliceKey_def carolKey_def objectPrototypeNames_def untouched)
qed

text \<open>
  The claim as it is written fails twice. It has a key expired when the clock reading
  equals \<open>expiresAt\<close>: the gate lets that request through. And it has every key that the
  store does not hold answered \<^emph>\<open>invalid\<close>: the key \<^verbatim>\<open>constructor\<close>, which the store does
  not hold, passes the gate, with no user.
\<close>

theorem validateApiKey_gate_counterexample:
  "map_of twoKeys ''00ff'' = Some aliceKey \<and> revoked aliceKey = False \<and>
   expiresAt aliceKey \<le> 2592001000 \<and>
   fst (validateApiKey 2592001000 2592001000 (Some ''00ff'') twoKeyServer) =
     Inr (Some ''alice'') \<and>
   ''constructor'' \<notin> identifiers (apiKeysFile twoKeyServer) \<and>
   fst (validateApiKey 5000 5001 (Some ''constructor'') twoKeyServer) = Inr None"
  by (simp add: validateApiKey_def twoKeyServer_def freshServer_def readJSON_eval
      getProperty_def twoKeys_def aliceKey_def carolKey_def isKeyExpired_def
      objectPrototypeNames_def identifiers_def builtinRevoked_def objectPrototype_def
      pristine_def)

text \<open>
  The names a store inherits grow with the requests. After one request with the key
  \<^verbatim>\<open>__proto__\<close> has passed the gate, \<^verbatim>\<open>Object.prototype\<close> has a \<^verbatim>\<open>lastUsed\<close>, and the key
  \<^verbatim>\<open>lastUsed\<close> passes the gate too; after \<^verbatim>\<open>DELETE /api/keys/__proto__\<close> the key \<^verbatim>\<open>revoked\<close>
  is answered \<^emph>\<open>revoked\<close>. Neither key is in the store.
\<close>

lemma validateApiKey_after_proto_key:
  "fst (validateApiKey 6000 6001 (Some ''lastUsed'') twoKeyServer) =
     Inl (Error 401 ''Invalid API key'') \<and>
   fst (validateApiKey 6000 6001 (Some ''lastUsed'')
          (perform noOtherHost (Validate 5000 5001 (Some ''__proto__'')) twoKeyServer)) =
     Inr None \<and>
   fst (validateApiKey 6000 6001 (Some ''revoked'')
          (perform noOtherHost (Revoke 5000 ''__proto__'') twoKeyServer)) =
     Inl (Error 401 ''API key has been revoked'')"
  by (simp add: validateApiKey_def deleteApiKey_def twoKeyServer_def freshServer_def
      readJSON_eval getProperty_def twoKeys_def objectPrototypeNames_def
      builtinRevoked_def objectPrototype_def pristine_def assignedProperty_def truthy_def)

subsection \<open>Which URLs the shorten route accepts\<close>




lemma basicUrlParser_empty: "basicUrlParser other [] = None"
  by (simp add: basicUrlParser_def preprocess_def schemeStartState_def)



lemma shortenRoute_behind_gate:
  "validateApiKey now1 now2 header st = (Inr reqUserId, st') \<Longrightarrow>
   shortenRoute other now1 now2 src now3 protocol host header bodyUrl st =
   postApiShorten other src now3 protocol host reqUserId bodyUrl st'"
  by (simp add: shortenRoute_def)







subsection \<open>Resolving a short identifier\<close>

lemma getShortUrl_present:
  assumes "readJSON (urlsFile st) = Inr urls" and "map_of urls shortUrl = Some urlData"
  shows "getShortUrl shortUrl st = (Redirect (Some (originalUrl urlData)), st)"
  using assms by (simp add: getShortUrl_def getProperty_own)

lemma getShortUrl_absent:
  assumes "readJSON (urlsFile st) = Inr urls" and "map_of urls shortUrl = None"
      and "shortUrl \<notin> set objectPrototypeNames"
      and "assignedProperty (objectPrototype st) shortUrl = None"
  shows "getShortUrl shortUrl st = (Error 404 ''Short URL not found'', st)"
  using assms by (simp add: getShortUrl_def getProperty_absent)

lemma getShortUrl_inherited:
  assumes "readJSON (urlsFile st) = Inr urls" and "map_of urls shortUrl = None"
      and "shortUrl \<in> set objectPrototypeNames"
  shows "getShortUrl shortUrl st = (Redirect None, st)"
  using assms by (simp add: getShortUrl_def getProperty_inherited)

text \<open>
  C7. Resolve answers 404 for an identifier the URL store does not hold, and redirects to
  the stored \<open>originalUrl\<close> for one it holds. The handler tests \<^verbatim>\<open>!urls[shortUrl]\<close>, and
  that read also finds what every object inherits: on a server that has never stored a
  URL, \<^verbatim>\<open>GET /constructor\<close> is not answered 404 but redirected, to the \<^verbatim>\<open>originalUrl\<close> of
  the function it found, which is \<^verbatim>\<open>undefined\<close>. The two lemmas \<open>getShortUrl_present\<close>
  and \<open>getShortUrl_absent\<close> are the claim for the identifiers that name nothing the store
  inherits.
\<close>

theorem getShortUrl_constructor:
  "identifiers (urlsFile freshServer) = {} \<and>
   getShortUrl ''constructor'' freshServer = (Redirect None, freshServer) \<and>
   fst (getShortUrl ''constructor'' freshServer) \<noteq> Error 404 ''Short URL not found''"
  by (simp add: getShortUrl_def freshServer_def readJSON_eval getProperty_def
      objectPrototypeNames_def identifiers_def)

subsection \<open>Shortening and resolving\<close>

lemma generateShortUrl_ab: "generateShortUrl (constantSource 171) = ''abababab''"
  by code_simp

lemma exampleUrl_valid: "isValidUrl other exampleUrl"
  by code_simp

text \<open>
  C5. For a URL that the URL constructor accepts, with a readable URL store, Shorten
  succeeds: it replies with the short URL made of the request's protocol and host and of
  the generated identifier, and Resolve on that identifier, on the state Shorten left,
  redirects to exactly the URL that was submitted.
\<close>

theorem shorten_then_resolve:
  assumes "readJSON (urlsFile st) = Inr urls" and "isValidUrl other url"
  shows "fst (postApiShorten other src now protocol host uid (Some url) st) =
           Shortened (protocol @ ''://'' @ host @ ''/'' @ generateShortUrl src) url \<and>
         getShortUrl (generateShortUrl src)
           (snd (postApiShorten other src now protocol host uid (Some url) st)) =
           (Redirect (Some url),
            snd (postApiShorten other src now protocol host uid (Some url) st))"
proof -
  from assms(2) have "url \<noteq> []"
    using basicUrlParser_empty [of other] by (auto simp: isValidUrl_def)
  with assms show ?thesis
    by (simp add: postApiShorten_def getShortUrl_def Let_def getProperty_def
        AList.update_conv')
qed

theorem shorten_then_resolve_witness:
  "readJSON (urlsFile freshServer) = Inr [] \<and> isValidUrl noOtherHost exampleUrl \<and>
   fst (postApiShorten noOtherHost (constantSource 171) 5000 ''http'' ''localhost:3000''
          (Some ''alice'') (Some exampleUrl) freshServer) =
     Shortened ''http://localhost:3000/abababab'' ''https://example.com/x'' \<and>
   fst (getShortUrl ''abababab''
          (snd (postApiShorten noOtherHost (constantSource 171) 5000 ''http''
                  ''localhost:3000'' (Some ''alice'') (Some exampleUrl) freshServer))) =
     Redirect (Some ''https://example.com/x'')"
proof -
  have readable: "readJSON (urlsFile freshServer) = Inr []"
    by (simp add: freshServer_def readJSON_eval)
  from shorten_then_resolve [OF readable exampleUrl_valid,
      of noOtherHost "constantSource 171" 5000 "''http''" "''localhost:3000''" "Some ''alice''"]
  show ?thesis
    using readable exampleUrl_valid [of noOtherHost]
    by (simp add: generateShortUrl_ab) (simp add: exampleUrl_def)
qed

subsection \<open>Shortening the same URL twice\<close>

lemma generateShortUrl_inj:
  assumes "randomBytes 4 src1 \<noteq> randomBytes 4 src2"
  shows "generateShortUrl src1 \<noteq> generateShortUrl src2"
proof
  assume "generateShortUrl src1 = generateShortUrl src2"
  moreover have "length (randomBytes 4 src1) = length (randomBytes 4 src2)"
    by (simp add: randomBytes_def)
  ultimately have "randomBytes 4 src1 = randomBytes 4 src2"
    unfolding generateShortUrl_def by (intro toHex_inj)
  with assms show False by simp
qed

lemma postApiShorten_stores:
  assumes "readJSON (urlsFile st) = Inr urls" and "isValidUrl other url"
  shows "postApiShorten other src now protocol host uid (Some url) st =
           (Shortened (protocol @ ''://'' @ host @ ''/'' @ generateShortUrl src) url,
            st\<lparr>urlsFile := writeJSON (AList.update (generateShortUrl src)
                  \<lparr>originalUrl = url, ownerId = uid, shortenedAt = now\<rparr> urls)\<rparr>)"
proof -
  from assms(2) have "url \<noteq> []"
    using basicUrlParser_empty [of other] by (auto simp: isValidUrl_def)
  with assms show ?thesis
    by (simp add: postApiShorten_def Let_def)
qed

text \<open>
  C6, as the code has it. Two Shorten calls in a row with the same URL and the same
  user, on a readable URL store, both succeed. When the two draws of four random bytes
  differ, the two identifiers differ and both resolve to the URL afterwards: no
  deduplication, and neither record displaces the other.
\<close>

theorem shorten_twice:
  assumes "readJSON (urlsFile st) = Inr urls" and "isValidUrl other url"
      and "randomBytes 4 src1 \<noteq> randomBytes 4 src2"
      and "st1 = snd (postApiShorten other src1 now1 protocol host uid (Some url) st)"
      and "st2 = snd (postApiShorten other src2 now2 protocol host uid (Some url) st1)"
  shows "fst (postApiShorten other src1 now1 protocol host uid (Some url) st) =
           Shortened (protocol @ ''://'' @ host @ ''/'' @ generateShortUrl src1) url \<and>
         fst (postApiShorten other src2 now2 protocol host uid (Some url) st1) =
           Shortened (protocol @ ''://'' @ host @ ''/'' @ generateShortUrl src2) url \<and>
         generateShortUrl src1 \<noteq> generateShortUrl src2 \<and>
         getShortUrl (generateShortUrl src1) st2 = (Redirect (Some url), st2) \<and>
         getShortUrl (generateShortUrl src2) st2 = (Redirect (Some url), st2)"
proof -
  let ?id1 = "generateShortUrl src1" and ?id2 = "generateShortUrl src2"
  let ?r1 = "\<lparr>originalUrl = url, ownerId = uid, shortenedAt = now1\<rparr>"
  let ?r2 = "\<lparr>originalUrl = url, ownerId = uid, shortenedAt = now2\<rparr>"
  let ?urls1 = "AList.update ?id1 ?r1 urls"
  let ?urls2 = "AList.update ?id2 ?r2 ?urls1"
  have distinct: "?id1 \<noteq> ?id2"
    using assms(3) by (rule generateShortUrl_inj)
  have first: "postApiShorten other src1 now1 protocol host uid (Some url) st =
      (Shortened (protocol @ ''://'' @ host @ ''/'' @ ?id1) url,
       st\<lparr>urlsFile := writeJSON ?urls1\<rparr>)"
    using assms(1,2) by (rule postApiShorten_stores)
  then have st1: "st1 = st\<lparr>urlsFile := writeJSON ?urls1\<rparr>"
    using assms(4) by simp
  then have readable1: "readJSON (urlsFile st1) = Inr ?urls1"
    by simp
  have second: "postApiShorten other src2 now2 protocol host uid (Some url) st1 =
      (Shortened (protocol @ ''://'' @ host @ ''/'' @ ?id2) url,
       st1\<lparr>urlsFile := writeJSON ?urls2\<rparr>)"
    using readable1 assms(2) by (rule postApiShorten_stores)
  then have st2: "st2 = st1\<lparr>urlsFile := writeJSON ?urls2\<rparr>"
    using assms(5) by simp
  then have readable2: "readJSON (urlsFile st2) = Inr ?urls2"
    by simp
  have "map_of ?urls2 ?id1 = Some ?r1"
    using distinct by (simp add: AList.update_conv')
  with readable2 have resolve1: "getShortUrl ?id1 st2 = (Redirect (Some url), st2)"
    by (simp add: getShortUrl_present)
  have "map_of ?urls2 ?id2 = Some ?r2"
    by (simp add: AList.update_conv')
  with readable2 have resolve2: "getShortUrl ?id2 st2 = (Redirect (Some url), st2)"
    by (simp add: getShortUrl_present)
  from first second distinct resolve1 resolve2 show ?thesis
    by simp
qed

lemma generateShortUrl_01: "generateShortUrl (constantSource 1) = ''01010101''"
  by code_simp

lemma generateShortUrl_02: "generateShortUrl (constantSource 2) = ''02020202''"
  by code_simp

theorem shorten_twice_witness:
  "readJSON (urlsFile freshServer) = Inr [] \<and> isValidUrl noOtherHost exampleUrl \<and>
   randomBytes 4 (constantSource 1) \<noteq> randomBytes 4 (constantSource 2) \<and>
   fst (getShortUrl ''01010101''
     (perform noOtherHost
        (Shorten (constantSource 2) 6000 ''http'' ''localhost:3000'' (Some ''alice'')
           (Some exampleUrl))
        (perform noOtherHost
           (Shorten (constantSource 1) 5000 ''http'' ''localhost:3000'' (Some ''alice'')
              (Some exampleUrl))
           freshServer))) = Redirect (Some ''https://example.com/x'') \<and>
   fst (getShortUrl ''02020202''
     (perform noOtherHost
        (Shorten (constantSource 2) 6000 ''http'' ''localhost:3000'' (Some ''alice'')
           (Some exampleUrl))
        (perform noOtherHost
           (Shorten (constantSource 1) 5000 ''http'' ''localhost:3000'' (Some ''alice'')
              (Some exampleUrl))
           freshServer))) = Redirect (Some ''https://example.com/x'')"
proof -
  have readable: "readJSON (urlsFile freshServer) = Inr []"
    by (simp add: freshServer_def readJSON_eval)
  have draws: "randomBytes 4 (constantSource 1) \<noteq> randomBytes 4 (constantSource 2)"
    by code_simp
  from shorten_twice [OF readable exampleUrl_valid draws refl refl,
      of noOtherHost 5000 "''http''" "''localhost:3000''" "Some ''alice''" 6000]
  show ?thesis
    using readable draws exampleUrl_valid [of noOtherHost]
    by (simp add: generateShortUrl_01 generateShortUrl_02) (simp add: exampleUrl_def)
qed

text \<open>
  The claim as it is written has the two identifiers distinct whatever the store and the
  URL. Nothing in the handler compares an identifier with the stored ones: when the
  second draw of four bytes repeats the first, the second call replies with the same
  short URL and its record takes the place of the first.
\<close>

theorem shorten_twice_counterexample:
  "fst (postApiShorten noOtherHost (constantSource 1) 5000 ''http'' ''localhost:3000''
          (Some ''alice'') (Some ''https://example.com/x'') freshServer) =
     Shortened ''http://localhost:3000/01010101'' ''https://example.com/x'' \<and>
   fst (postApiShorten noOtherHost (constantSource 1) 6000 ''http'' ''localhost:3000''
          (Some ''alice'') (Some ''https://example.com/x'')
          (snd (postApiShorten noOtherHost (constantSource 1) 5000 ''http''
                  ''localhost:3000'' (Some ''alice'') (Some ''https://example.com/x'')
                  freshServer))) =
     Shortened ''http://localhost:3000/01010101'' ''https://example.com/x'' \<and>
   readJSON (urlsFile
     (snd (postApiShorten noOtherHost (constantSource 1) 6000 ''http'' ''localhost:3000''
          (Some ''alice'') (Some ''https://example.com/x'')
          (snd (postApiShorten noOtherHost (constantSource 1) 5000 ''http''
                  ''localhost:3000'' (Some ''alice'') (Some ''https://example.com/x'')
                  freshServer))))) =
     Inr [(''01010101'',
           \<lparr>originalUrl = ''https://example.com/x'', ownerId = Some ''alice'',
            shortenedAt = 6000\<rparr>)]"
  by code_simp

end
